theory Spec2Isabelle
  imports Main "HOL-Library.Option_ord"
begin

section \<open>Data model\<close>

text \<open>
  The backend keeps five MongoDB collections (users, follows, posts, comments,
  notifications). Each collection is a list of documents in the store's natural
  (insertion) order; users are looked up by id only and are kept as a map.
  An ObjectId is a natural number, drawn from a counter of the store, so that two
  created documents never share an id. Every controller is a function from the store
  to a response and the store it leaves behind; a response is either a failure with
  its HTTP status and message or the payload of the success answer.
\<close>

type_synonym oid = nat

datatype failure = Failure nat string

text \<open>\<open>req.user\<close>, as the authentication middleware attaches it to a request.\<close>

record req_user =
  r_id :: oid
  r_username :: string
  r_role :: string

text \<open>The fields of a user document that the controllers read or write.\<close>

record user =
  u_username :: string
  u_isActive :: bool
  u_isPrivate :: bool
  u_followersCount :: int
  u_followingCount :: int

datatype follow_status = Pending | Accepted | Blocked

record follow =
  f_follower :: oid
  f_following :: oid
  f_status :: follow_status

datatype ntype = Like | Comment | Reply | Follow | FollowRequest | Share | Mention | Tag

datatype entity = EPost | EComment | EUser

text \<open>
  \<open>n_groupKey\<close> holds the template string of the pre-save hook as its prefix and the
  id that the template interpolates.
\<close>

record notification =
  n_recipient :: oid
  n_sender :: oid
  n_type :: ntype
  n_entityType :: entity
  n_entityId :: oid
  n_message :: string
  n_isRead :: bool
  n_groupKey :: "(string \<times> oid) option"
  n_isActive :: bool

datatype visibility = Public | Followers | Private

text \<open>
  A post document. \<open>p_likes\<close> and \<open>p_shares\<close> hold the \<open>user\<close> of each entry of the
  \<open>likes\<close> and \<open>shares\<close> arrays, \<open>p_comments\<close> the comment ids; times are milliseconds.
  Media, tags, location and the edit history are read by no operation below.
\<close>

record post =
  p_id :: oid
  p_author :: oid
  p_content :: "string option"
  p_likes :: "oid list"
  p_likesCount :: int
  p_comments :: "oid list"
  p_commentsCount :: int
  p_shares :: "oid list"
  p_sharesCount :: int
  p_mentions :: "oid list"
  p_visibility :: visibility
  p_isActive :: bool
  p_sharedPost :: "oid option"
  p_shareText :: "string option"
  p_createdAt :: int

text \<open>
  A comment document. The Comment schema is not part of the sources at hand, only its
  uses in the comment controller are; the fields are the ones the controller touches.
\<close>

record comment =
  c_id :: oid
  c_author :: oid
  c_post :: oid
  c_content :: string
  c_parentComment :: "oid option"
  c_replies :: "oid list"
  c_likes :: "oid list"
  c_likesCount :: int
  c_isActive :: bool
  c_createdAt :: int

record db =
  users :: "oid \<rightharpoonup> user"
  follows :: "follow list"
  posts :: "post list"
  comments :: "comment list"
  notifications :: "notification list"
  nextId :: oid

section \<open>Notification model\<close>

text \<open>
  The pre-save hook of the notification schema: a group key for likes and comments
  on posts, none otherwise.
\<close>

definition notification_pre_save :: "notification \<Rightarrow> notification" where
  "notification_pre_save n =
     (if n_type n = Like \<and> n_entityType n = EPost
        then n\<lparr>n_groupKey := Some (''post_like_'', n_entityId n)\<rparr>
      else if n_type n = Comment \<and> n_entityType n = EPost
        then n\<lparr>n_groupKey := Some (''post_comment_'', n_entityId n)\<rparr>
      else n)"

text \<open>
  Schema validation of a notification: the ids, the type and the entity type are
  present by typing; the message is required, which an empty string fails, and has at
  most 500 characters.
\<close>

definition notification_validate :: "notification \<Rightarrow> bool" where
  "notification_validate n = (n_message n \<noteq> [] \<and> length (n_message n) \<le> 500)"

text \<open>What a controller passes to \<open>createNotification\<close> or \<open>insertMany\<close>.\<close>

definition notification_data ::
  "oid \<Rightarrow> oid \<Rightarrow> ntype \<Rightarrow> entity \<Rightarrow> oid \<Rightarrow> string \<Rightarrow> notification" where
  "notification_data rcp sndr ty et eid msg =
     \<lparr>n_recipient = rcp, n_sender = sndr, n_type = ty, n_entityType = et,
      n_entityId = eid, n_message = msg, n_isRead = False, n_groupKey = None,
      n_isActive = True\<rparr>"

text \<open>
  \<open>Notification.createNotification\<close>: builds the document and saves it (validation,
  then the pre-save hook). \<open>None\<close> is the rejected promise of a failed validation.
\<close>

definition createNotification :: "notification \<Rightarrow> db \<Rightarrow> db option" where
  "createNotification n s =
     (if notification_validate n
        then Some (s\<lparr>notifications := notifications s @ [notification_pre_save n]\<rparr>)
      else None)"

text \<open>
  \<open>Notification.insertMany\<close>: validates every document and inserts them all, or
  rejects; the save hooks do not run.
\<close>

definition insertMany :: "notification list \<Rightarrow> db \<Rightarrow> db option" where
  "insertMany ns s =
     (if list_all notification_validate ns
        then Some (s\<lparr>notifications := notifications s @ ns\<rparr>)
      else None)"

section \<open>Follow model and controller\<close>

text \<open>
  \<open>Follow.create\<close>: the pre-save hook rejects a self-follow, the unique index on
  (follower, following) rejects a second edge of the same pair.
\<close>

definition Follow_create :: "follow \<Rightarrow> db \<Rightarrow> db option" where
  "Follow_create f s =
     (if f_follower f = f_following f then None
      else if list_ex (\<lambda>g. f_follower g = f_follower f \<and> f_following g = f_following f)
                (follows s) then None
      else Some (s\<lparr>follows := follows s @ [f]\<rparr>))"

text \<open>\<open>User.findByIdAndUpdate(id, {$inc: ...})\<close>: no effect when the id is unknown.\<close>

definition inc_followingCount :: "oid \<Rightarrow> int \<Rightarrow> db \<Rightarrow> db" where
  "inc_followingCount uid k s =
     (case users s uid of
        None \<Rightarrow> s
      | Some u \<Rightarrow> s\<lparr>users := (users s)(uid \<mapsto> u\<lparr>u_followingCount := u_followingCount u + k\<rparr>)\<rparr>)"

definition inc_followersCount :: "oid \<Rightarrow> int \<Rightarrow> db \<Rightarrow> db" where
  "inc_followersCount uid k s =
     (case users s uid of
        None \<Rightarrow> s
      | Some u \<Rightarrow> s\<lparr>users := (users s)(uid \<mapsto> u\<lparr>u_followersCount := u_followersCount u + k\<rparr>)\<rparr>)"

text \<open>\<open>findOneAndDelete\<close>: removes the first document that matches.\<close>

fun delete_first :: "('a \<Rightarrow> bool) \<Rightarrow> 'a list \<Rightarrow> 'a list" where
  "delete_first P [] = []"
| "delete_first P (x # xs) = (if P x then xs else x # delete_first P xs)"

text \<open>Saving a changed document: the first document that matches is replaced.\<close>

fun replace_first :: "('a \<Rightarrow> bool) \<Rightarrow> 'a \<Rightarrow> 'a list \<Rightarrow> 'a list" where
  "replace_first P y [] = []"
| "replace_first P y (x # xs) = (if P x then y # xs else x # replace_first P y xs)"

definition followUser :: "req_user \<Rightarrow> oid \<Rightarrow> db \<Rightarrow> (failure + follow_status) \<times> db" where
  "followUser u userId s =
     (if userId = r_id u then (Inl (Failure 400 ''Cannot follow yourself''), s)
      else case users s userId of
        None \<Rightarrow> (Inl (Failure 404 ''User not found''), s)
      | Some userToFollow \<Rightarrow>
          if \<not> u_isActive userToFollow then (Inl (Failure 404 ''User not found''), s)
          else case find (\<lambda>f. f_follower f = r_id u \<and> f_following f = userId) (follows s) of
            Some existingFollow \<Rightarrow> (Inl (Failure 400 ''Already following this user''), s)
          | None \<Rightarrow>
             (let fl = \<lparr>f_follower = r_id u, f_following = userId,
                        f_status = (if u_isPrivate userToFollow then Pending else Accepted)\<rparr>
              in case Follow_create fl s of
                None \<Rightarrow> (Inl (Failure 500 ''Server error following user''), s)
              | Some s1 \<Rightarrow>
                 (let s2 = inc_followingCount (r_id u) 1 s1;
                      s3 = inc_followersCount userId 1 s2;
                      n = (if \<not> u_isPrivate userToFollow
                             then notification_data userId (r_id u) Follow EUser (r_id u)
                                    (r_username u @ '' started following you'')
                           else notification_data userId (r_id u) FollowRequest EUser (r_id u)
                                    (r_username u @ '' sent you a follow request''))
                  in case createNotification n s3 of
                    None \<Rightarrow> (Inl (Failure 500 ''Server error following user''), s3)
                  | Some s4 \<Rightarrow> (Inr (f_status fl), s4))))"

definition unfollowUser :: "req_user \<Rightarrow> oid \<Rightarrow> db \<Rightarrow> (failure + unit) \<times> db" where
  "unfollowUser u userId s =
     (case find (\<lambda>f. f_follower f = r_id u \<and> f_following f = userId) (follows s) of
        None \<Rightarrow> (Inl (Failure 404 ''Not following this user''), s)
      | Some fl \<Rightarrow>
         (let s1 = s\<lparr>follows :=
                      delete_first (\<lambda>f. f_follower f = r_id u \<and> f_following f = userId) (follows s)\<rparr>;
              s2 = inc_followingCount (r_id u) (- 1) s1;
              s3 = inc_followersCount userId (- 1) s2
          in (Inr (), s3)))"

definition acceptFollowRequest :: "req_user \<Rightarrow> oid \<Rightarrow> db \<Rightarrow> (failure + unit) \<times> db" where
  "acceptFollowRequest u userId s =
     (case find (\<lambda>f. f_follower f = userId \<and> f_following f = r_id u \<and> f_status f = Pending)
             (follows s) of
        None \<Rightarrow> (Inl (Failure 404 ''Follow request not found''), s)
      | Some fl \<Rightarrow>
          if f_follower fl = f_following fl
            then (Inl (Failure 500 ''Server error accepting follow request''), s)
          else
           (let s1 = s\<lparr>follows :=
                        replace_first
                          (\<lambda>f. f_follower f = userId \<and> f_following f = r_id u \<and> f_status f = Pending)
                          (fl\<lparr>f_status := Accepted\<rparr>) (follows s)\<rparr>
            in case createNotification
                      (notification_data userId (r_id u) Follow EUser (r_id u)
                         (r_username u @ '' accepted your follow request'')) s1 of
                 None \<Rightarrow> (Inl (Failure 500 ''Server error accepting follow request''), s1)
               | Some s2 \<Rightarrow> (Inr (), s2)))"

definition rejectFollowRequest :: "req_user \<Rightarrow> oid \<Rightarrow> db \<Rightarrow> (failure + unit) \<times> db" where
  "rejectFollowRequest u userId s =
     (case find (\<lambda>f. f_follower f = userId \<and> f_following f = r_id u \<and> f_status f = Pending)
             (follows s) of
        None \<Rightarrow> (Inl (Failure 404 ''Follow request not found''), s)
      | Some fl \<Rightarrow>
          (Inr (), s\<lparr>follows :=
                      delete_first
                        (\<lambda>f. f_follower f = userId \<and> f_following f = r_id u \<and> f_status f = Pending)
                        (follows s)\<rparr>))"

text \<open>
  \<open>Follow.isFollowing\<close>: the accepted edge of the pair, or null. The follower id is
  optional: the read paths pass \<open>req.user?._id\<close>, which is undefined for an anonymous
  viewer, and no stored edge has an absent follower (the field is required).
\<close>

definition isFollowing :: "oid option \<Rightarrow> oid \<Rightarrow> db \<Rightarrow> follow option" where
  "isFollowing followerId followingId s =
     find (\<lambda>f. Some (f_follower f) = followerId \<and> f_following f = followingId \<and>
               f_status f = Accepted) (follows s)"

text \<open>JavaScript truthiness of a query result: a document is truthy, null is falsy.\<close>

definition truthy :: "'a option \<Rightarrow> bool" where
  "truthy r = (case r of None \<Rightarrow> False | Some d \<Rightarrow> True)"

text \<open>\<open>Follow.getFollowStats\<close>: both counts, taken over the accepted edges.\<close>

definition getFollowStats :: "oid \<Rightarrow> db \<Rightarrow> int \<times> int" where
  "getFollowStats userId s =
     (int (length (filter (\<lambda>f. f_following f = userId \<and> f_status f = Accepted) (follows s))),
      int (length (filter (\<lambda>f. f_follower f = userId \<and> f_status f = Accepted) (follows s))))"

record follow_status_data =
  fs_isFollowing :: bool
  fs_hasPendingRequest :: bool
  fs_status :: "follow_status option"

definition getFollowStatus :: "req_user \<Rightarrow> oid \<Rightarrow> db \<Rightarrow> follow_status_data" where
  "getFollowStatus u userId s =
     (let fl = find (\<lambda>f. f_follower f = r_id u \<and> f_following f = userId) (follows s)
      in \<lparr>fs_isFollowing = (case fl of None \<Rightarrow> False | Some f \<Rightarrow> f_status f = Accepted),
          fs_hasPendingRequest = (case fl of None \<Rightarrow> False | Some f \<Rightarrow> f_status f = Pending),
          fs_status = map_option f_status fl\<rparr>)"

text \<open>The denormalised counters of an account, 0 and 0 for an unknown id.\<close>

definition followersCount :: "oid \<Rightarrow> db \<Rightarrow> int" where
  "followersCount uid s = (case users s uid of None \<Rightarrow> 0 | Some u \<Rightarrow> u_followersCount u)"

definition followingCount :: "oid \<Rightarrow> db \<Rightarrow> int" where
  "followingCount uid s = (case users s uid of None \<Rightarrow> 0 | Some u \<Rightarrow> u_followingCount u)"

section \<open>Post model\<close>

text \<open>
  The \<open>trim\<close> setter of the schema strings. A character of a string stands for one
  UTF-16 code unit below 256; the white space of JavaScript in that range is tab, line
  feed, vertical tab, form feed, carriage return, space and the no-break space U+00A0.
\<close>

definition is_space :: "char \<Rightarrow> bool" where
  "is_space c =
     (c \<in> set [CHR '' '', CHR 0x09, CHR 0x0A, CHR 0x0B, CHR 0x0C, CHR 0x0D, CHR 0xA0])"

definition trim :: "string \<Rightarrow> string" where
  "trim cs = rev (dropWhile is_space (rev (dropWhile is_space cs)))"

text \<open>
  Schema validation of a post: \<open>content\<close> is required (an absent or empty string
  fails) and has at most 2000 characters, \<open>shareText\<close> at most 500. The author is
  present by typing and the visibility is one of the enumeration by typing.
\<close>

definition Post_validate :: "post \<Rightarrow> bool" where
  "Post_validate p =
     ((case p_content p of None \<Rightarrow> False | Some c \<Rightarrow> c \<noteq> [] \<and> length c \<le> 2000) \<and>
      (case p_shareText p of None \<Rightarrow> True | Some t \<Rightarrow> length t \<le> 500))"

text \<open>
  The pre-save hook of the post schema. \<open>isModified\<close> of a path is the comparison of
  the document at hand with the one that was loaded. Only \<open>likesCount\<close> and
  \<open>sharesCount\<close> are recomputed.
\<close>

definition post_pre_save :: "post \<Rightarrow> post \<Rightarrow> post" where
  "post_pre_save loaded p =
     (let p1 = (if p_likes p \<noteq> p_likes loaded
                  then p\<lparr>p_likesCount := int (length (p_likes p))\<rparr> else p);
          p2 = (if p_shares p1 \<noteq> p_shares loaded
                  then p1\<lparr>p_sharesCount := int (length (p_shares p1))\<rparr> else p1)
      in p2)"

text \<open>
  \<open>Post.create\<close>: the document with the schema defaults, validated and inserted with
  a fresh id; \<open>None\<close> is the rejection of the validation error.
\<close>

definition Post_create ::
  "oid \<Rightarrow> string option \<Rightarrow> visibility \<Rightarrow> oid list \<Rightarrow> oid option \<Rightarrow> string option \<Rightarrow>
   int \<Rightarrow> db \<Rightarrow> (post \<times> db) option" where
  "Post_create author content vis ments shared shareText now s =
     (let p = \<lparr>p_id = nextId s, p_author = author, p_content = map_option trim content,
                p_likes = [], p_likesCount = 0, p_comments = [], p_commentsCount = 0,
                p_shares = [], p_sharesCount = 0, p_mentions = ments, p_visibility = vis,
                p_isActive = True, p_sharedPost = shared, p_shareText = shareText,
                p_createdAt = now\<rparr>
      in if Post_validate p
           then Some (p, s\<lparr>posts := posts s @ [p], nextId := Suc (nextId s)\<rparr>)
         else None)"

text \<open>\<open>post.save()\<close> of a loaded and then changed document.\<close>

definition Post_save :: "post \<Rightarrow> post \<Rightarrow> db \<Rightarrow> (post \<times> db) option" where
  "Post_save loaded p s =
     (if Post_validate p
        then (let p' = post_pre_save loaded p
              in Some (p', s\<lparr>posts := replace_first (\<lambda>q. p_id q = p_id loaded) p' (posts s)\<rparr>))
      else None)"

definition Post_findById :: "oid \<Rightarrow> db \<Rightarrow> post option" where
  "Post_findById pid s = find (\<lambda>p. p_id p = pid) (posts s)"

definition isLikedBy :: "post \<Rightarrow> oid \<Rightarrow> bool" where
  "isLikedBy p userId = list_ex (\<lambda>l. l = userId) (p_likes p)"

text \<open>The virtual \<open>engagementCount\<close>.\<close>

definition engagementCount :: "post \<Rightarrow> int" where
  "engagementCount p = p_likesCount p + p_commentsCount p + p_sharesCount p"

text \<open>
  \<open>skip(n).limit(m)\<close> of a query: the store rejects a negative skip, takes no limit
  for 0 and the absolute value of a negative limit.
\<close>

definition skip_limit :: "int \<Rightarrow> int \<Rightarrow> 'a list \<Rightarrow> 'a list option" where
  "skip_limit sk lim xs =
     (if sk < 0 then None
      else Some (let ys = drop (nat sk) xs
                 in if lim = 0 then ys else take (nat \<bar>lim\<bar>) ys))"

text \<open>
  The numeric paths of a stored post document, by their names. A sort of a query runs
  in the store, on the stored documents. \<open>engagementCount\<close> is a virtual of the schema:
  it is computed on a loaded document and is no path of a stored one.
\<close>

definition stored_number :: "string \<Rightarrow> post \<Rightarrow> int option" where
  "stored_number path p =
     (if path = ''likesCount'' then Some (p_likesCount p)
      else if path = ''commentsCount'' then Some (p_commentsCount p)
      else if path = ''sharesCount'' then Some (p_sharesCount p)
      else if path = ''createdAt'' then Some (p_createdAt p)
      else None)"

text \<open>
  \<open>sort({path: -1})\<close>: descending on the stored value of the path, the documents
  without the path after all others, documents with equal keys in the order in which
  the store holds them.
\<close>

definition sort_desc :: "('a \<Rightarrow> int option) \<Rightarrow> 'a list \<Rightarrow> 'a list" where
  "sort_desc key xs = rev (sort_key key (rev xs))"

text \<open>
  The static \<open>getPopularPosts\<close>: the active public posts created in the seven days
  before \<open>now\<close>, sorted by the store on the one key \<open>engagementCount\<close>, descending,
  then skipped and limited. The query names no second sort key.
\<close>

definition Post_getPopularPosts :: "int \<Rightarrow> int \<Rightarrow> int \<Rightarrow> db \<Rightarrow> post list option" where
  "Post_getPopularPosts page limit now s =
     (let skip = (page - 1) * limit
      in skip_limit skip limit
           (sort_desc (stored_number ''engagementCount'')
              (filter (\<lambda>p. p_visibility p = Public \<and> p_isActive p \<and>
                           now - 7 * 24 * 60 * 60 * 1000 \<le> p_createdAt p) (posts s))))"

section \<open>Post controller\<close>

text \<open>
  The controllers also delete keys of the Redis cache after a change; the cache is no
  collection of the store and is left out of the mutating controllers. The read of
  the cache in \<open>getPopularPosts\<close> is the argument \<open>cached\<close>.
\<close>

definition createPost ::
  "req_user \<Rightarrow> string option \<Rightarrow> visibility option \<Rightarrow> oid list option \<Rightarrow> int \<Rightarrow> db \<Rightarrow>
   (failure + post) \<times> db" where
  "createPost u content vis ments now s =
     (case Post_create (r_id u) content (case vis of None \<Rightarrow> Public | Some v \<Rightarrow> v)
             (case ments of None \<Rightarrow> [] | Some m \<Rightarrow> m) None None now s of
        None \<Rightarrow> (Inl (Failure 500 ''Server error creating post''), s)
      | Some (post, s1) \<Rightarrow>
          (case ments of
             None \<Rightarrow> (Inr post, s1)
           | Some m \<Rightarrow>
               if 0 < length m
                 then (case insertMany
                              (map (\<lambda>userId. notification_data userId (r_id u) Mention EPost
                                      (p_id post) (r_username u @ '' mentioned you in a post'')) m)
                              s1 of
                         None \<Rightarrow> (Inl (Failure 500 ''Server error creating post''), s1)
                       | Some s2 \<Rightarrow> (Inr post, s2))
               else (Inr post, s1)))"

record popular_data =
  pd_posts :: "post list"
  pd_page :: int
  pd_limit :: int

text \<open>
  The destructuring \<open>{ page = 1, limit = 20 } = req.query\<close> of the paginated
  controllers: the defaults stand in for an absent parameter.
\<close>

definition query_page :: "int option \<Rightarrow> int" where
  "query_page page = (case page of None \<Rightarrow> 1 | Some p \<Rightarrow> p)"

definition query_limit :: "int option \<Rightarrow> int" where
  "query_limit limit = (case limit of None \<Rightarrow> 20 | Some l \<Rightarrow> l)"

text \<open>The pagination rule of the validation middleware that runs before the controller.\<close>

definition validatePagination :: "int option \<Rightarrow> int option \<Rightarrow> bool" where
  "validatePagination page limit =
     ((case page of None \<Rightarrow> True | Some p \<Rightarrow> 1 \<le> p) \<and>
      (case limit of None \<Rightarrow> True | Some l \<Rightarrow> 1 \<le> l \<and> l \<le> 100))"

definition getPopularPosts ::
  "popular_data option \<Rightarrow> int option \<Rightarrow> int option \<Rightarrow> int \<Rightarrow> db \<Rightarrow> failure + popular_data" where
  "getPopularPosts cached page limit now s =
     (let pg = query_page page;
          lm = query_limit limit
      in case cached of
           Some cachedPosts \<Rightarrow> Inr cachedPosts
         | None \<Rightarrow>
            (case Post_getPopularPosts pg lm now s of
               None \<Rightarrow> Inl (Failure 500 ''Server error getting popular posts'')
             | Some ps \<Rightarrow> Inr \<lparr>pd_posts = ps, pd_page = pg, pd_limit = lm\<rparr>))"

text \<open>
  \<open>getPost\<close>. The author of the post is populated before the checks; the checks on a
  private or followers-only post read \<open>post.author._id\<close>, which throws when the author
  document is gone.
\<close>

definition getPost :: "req_user option \<Rightarrow> oid \<Rightarrow> db \<Rightarrow> failure + post" where
  "getPost ru pid s =
     (case Post_findById pid s of
        None \<Rightarrow> Inl (Failure 404 ''Post not found'')
      | Some post \<Rightarrow>
          if \<not> p_isActive post then Inl (Failure 404 ''Post not found'')
          else if p_visibility post = Private \<and> users s (p_author post) = None
            then Inl (Failure 500 ''Server error getting post'')
          else if p_visibility post = Private \<and> Some (p_author post) \<noteq> map_option r_id ru
            then Inl (Failure 403 ''This post is private'')
          else if p_visibility post = Followers \<and> ru = None
            then Inl (Failure 403 ''This post is only visible to followers'')
          else (case ru of
                  Some u \<Rightarrow>
                    if p_visibility post = Followers
                      then (if users s (p_author post) = None
                              then Inl (Failure 500 ''Server error getting post'')
                            else if \<not> truthy (isFollowing (Some (r_id u)) (p_author post) s) \<and>
                                    p_author post \<noteq> r_id u
                              then Inl (Failure 403 ''This post is only visible to followers'')
                            else Inr post)
                    else Inr post
                | None \<Rightarrow> Inr post))"

record like_data =
  ld_likesCount :: int
  ld_isLiked :: bool

definition likePost :: "req_user \<Rightarrow> oid \<Rightarrow> db \<Rightarrow> (failure + like_data) \<times> db" where
  "likePost u pid s =
     (case Post_findById pid s of
        None \<Rightarrow> (Inl (Failure 404 ''Post not found''), s)
      | Some post \<Rightarrow>
          if \<not> p_isActive post then (Inl (Failure 404 ''Post not found''), s)
          else
           (let isLiked = isLikedBy post (r_id u);
                post1 = (if isLiked
                           then post\<lparr>p_likes := filter (\<lambda>l. l \<noteq> r_id u) (p_likes post)\<rparr>
                         else post\<lparr>p_likes := p_likes post @ [r_id u]\<rparr>)
            in case Post_save post post1 s of
                 None \<Rightarrow> (Inl (Failure 500 ''Server error liking post''), s)
               | Some (post2, s1) \<Rightarrow>
                   if \<not> isLiked \<and> p_author post2 \<noteq> r_id u
                     then (case createNotification
                                  (notification_data (p_author post2) (r_id u) Like EPost
                                     (p_id post2) (r_username u @ '' liked your post'')) s1 of
                             None \<Rightarrow> (Inl (Failure 500 ''Server error liking post''), s1)
                           | Some s2 \<Rightarrow>
                               (Inr \<lparr>ld_likesCount = p_likesCount post2,
                                     ld_isLiked = (\<not> isLiked)\<rparr>, s2))
                   else (Inr \<lparr>ld_likesCount = p_likesCount post2,
                               ld_isLiked = (\<not> isLiked)\<rparr>, s1)))"

definition sharePost ::
  "req_user \<Rightarrow> oid \<Rightarrow> string option \<Rightarrow> int \<Rightarrow> db \<Rightarrow> (failure + post) \<times> db" where
  "sharePost u pid shareText now s =
     (case Post_findById pid s of
        None \<Rightarrow> (Inl (Failure 404 ''Post not found''), s)
      | Some originalPost \<Rightarrow>
          if \<not> p_isActive originalPost then (Inl (Failure 404 ''Post not found''), s)
          else
           (case Post_create (r_id u) None Public [] (Some (p_id originalPost)) shareText
                   now s of
              None \<Rightarrow> (Inl (Failure 500 ''Server error sharing post''), s)
            | Some (sharedPost, s1) \<Rightarrow>
               (case Post_save originalPost
                       (originalPost\<lparr>p_shares := p_shares originalPost @ [r_id u]\<rparr>) s1 of
                  None \<Rightarrow> (Inl (Failure 500 ''Server error sharing post''), s1)
                | Some (original2, s2) \<Rightarrow>
                    if p_author original2 \<noteq> r_id u
                      then (case createNotification
                                   (notification_data (p_author original2) (r_id u) Share EPost
                                      (p_id original2) (r_username u @ '' shared your post'')) s2 of
                              None \<Rightarrow> (Inl (Failure 500 ''Server error sharing post''), s2)
                            | Some s3 \<Rightarrow> (Inr sharedPost, s3))
                    else (Inr sharedPost, s2))))"

section \<open>Comment controller\<close>

text \<open>
  The Comment schema is not among the sources, so its validation is the parameter
  \<open>cv\<close> of every operation that saves a comment: \<open>cv c\<close> says that the schema accepts
  the document \<open>c\<close>.
\<close>

definition Comment_findById :: "oid \<Rightarrow> db \<Rightarrow> comment option" where
  "Comment_findById cid s = find (\<lambda>c. c_id c = cid) (comments s)"

definition Comment_create ::
  "(comment \<Rightarrow> bool) \<Rightarrow> oid \<Rightarrow> oid \<Rightarrow> string \<Rightarrow> oid option \<Rightarrow> int \<Rightarrow> db \<Rightarrow>
   (comment \<times> db) option" where
  "Comment_create cv author postId content parent now s =
     (let c = \<lparr>c_id = nextId s, c_author = author, c_post = postId, c_content = content,
                c_parentComment = parent, c_replies = [], c_likes = [], c_likesCount = 0,
                c_isActive = True, c_createdAt = now\<rparr>
      in if cv c
           then Some (c, s\<lparr>comments := comments s @ [c], nextId := Suc (nextId s)\<rparr>)
         else None)"

definition Comment_save :: "(comment \<Rightarrow> bool) \<Rightarrow> comment \<Rightarrow> db \<Rightarrow> db option" where
  "Comment_save cv c s =
     (if cv c
        then Some (s\<lparr>comments := replace_first (\<lambda>d. c_id d = c_id c) c (comments s)\<rparr>)
      else None)"

text \<open>\<open>findByIdAndUpdate\<close> with an update operator: the first match is rewritten.\<close>

fun update_first :: "('a \<Rightarrow> bool) \<Rightarrow> ('a \<Rightarrow> 'a) \<Rightarrow> 'a list \<Rightarrow> 'a list" where
  "update_first P g [] = []"
| "update_first P g (x # xs) = (if P x then g x # xs else x # update_first P g xs)"

text \<open>
  The second and third lookup of the parent comment in \<open>createComment\<close> dereference
  the result unchecked; a missing parent throws there.
\<close>

definition push_reply :: "(comment \<Rightarrow> bool) \<Rightarrow> oid option \<Rightarrow> oid \<Rightarrow> db \<Rightarrow> db option" where
  "push_reply cv parentCommentId cid s =
     (case parentCommentId of
        None \<Rightarrow> Some s
      | Some pcid \<Rightarrow>
          (case Comment_findById pcid s of
             None \<Rightarrow> None
           | Some parentComment \<Rightarrow>
               Comment_save cv (parentComment\<lparr>c_replies := c_replies parentComment @ [cid]\<rparr>) s))"

definition notify_post_author ::
  "req_user \<Rightarrow> post \<Rightarrow> oid option \<Rightarrow> oid \<Rightarrow> db \<Rightarrow> db option" where
  "notify_post_author u post parentCommentId cid s =
     (if p_author post \<noteq> r_id u
        then createNotification
               (notification_data (p_author post) (r_id u)
                  (case parentCommentId of None \<Rightarrow> Comment | Some pcid \<Rightarrow> Reply) EComment cid
                  (case parentCommentId of
                     None \<Rightarrow> r_username u @ '' commented on your post''
                   | Some pcid \<Rightarrow> r_username u @ '' replied to your comment'')) s
      else Some s)"

definition notify_parent_author ::
  "req_user \<Rightarrow> post \<Rightarrow> oid option \<Rightarrow> oid \<Rightarrow> db \<Rightarrow> db option" where
  "notify_parent_author u post parentCommentId cid s =
     (case parentCommentId of
        None \<Rightarrow> Some s
      | Some pcid \<Rightarrow>
          (case Comment_findById pcid s of
             None \<Rightarrow> None
           | Some parentComment \<Rightarrow>
               if c_author parentComment \<noteq> r_id u \<and> c_author parentComment \<noteq> p_author post
                 then createNotification
                        (notification_data (c_author parentComment) (r_id u) Reply EComment cid
                           (r_username u @ '' replied to your comment'')) s
               else Some s))"

definition createComment ::
  "(comment \<Rightarrow> bool) \<Rightarrow> req_user \<Rightarrow> oid \<Rightarrow> string \<Rightarrow> oid option \<Rightarrow> int \<Rightarrow> db \<Rightarrow>
   (failure + comment) \<times> db" where
  "createComment cv u postId content parentCommentId now s =
     (case Post_findById postId s of
        None \<Rightarrow> (Inl (Failure 404 ''Post not found''), s)
      | Some post \<Rightarrow>
          if \<not> p_isActive post then (Inl (Failure 404 ''Post not found''), s)
          else if (case parentCommentId of
                     None \<Rightarrow> False
                   | Some pcid \<Rightarrow>
                       (case Comment_findById pcid s of
                          None \<Rightarrow> True
                        | Some parentComment \<Rightarrow> \<not> c_isActive parentComment))
            then (Inl (Failure 404 ''Parent comment not found''), s)
          else
           (case Comment_create cv (r_id u) postId content parentCommentId now s of
              None \<Rightarrow> (Inl (Failure 500 ''Server error creating comment''), s)
            | Some (cmt, s1) \<Rightarrow>
               (case Post_save post (post\<lparr>p_comments := p_comments post @ [c_id cmt]\<rparr>) s1 of
                  None \<Rightarrow> (Inl (Failure 500 ''Server error creating comment''), s1)
                | Some (post2, s2) \<Rightarrow>
                   (case push_reply cv parentCommentId (c_id cmt) s2 of
                      None \<Rightarrow> (Inl (Failure 500 ''Server error creating comment''), s2)
                    | Some s3 \<Rightarrow>
                       (case notify_post_author u post2 parentCommentId (c_id cmt) s3 of
                          None \<Rightarrow> (Inl (Failure 500 ''Server error creating comment''), s3)
                        | Some s4 \<Rightarrow>
                           (case notify_parent_author u post2 parentCommentId (c_id cmt) s4 of
                              None \<Rightarrow> (Inl (Failure 500 ''Server error creating comment''), s4)
                            | Some s5 \<Rightarrow> (Inr cmt, s5)))))))"

definition deleteComment ::
  "(comment \<Rightarrow> bool) \<Rightarrow> req_user \<Rightarrow> oid \<Rightarrow> db \<Rightarrow> (failure + unit) \<times> db" where
  "deleteComment cv u cid s =
     (case Comment_findById cid s of
        None \<Rightarrow> (Inl (Failure 404 ''Comment not found''), s)
      | Some cmt \<Rightarrow>
          if \<not> c_isActive cmt then (Inl (Failure 404 ''Comment not found''), s)
          else if c_author cmt \<noteq> r_id u \<and> r_role u \<noteq> ''admin''
            then (Inl (Failure 403 ''Not authorized to delete this comment''), s)
          else
           (case Comment_save cv (cmt\<lparr>c_isActive := False\<rparr>) s of
              None \<Rightarrow> (Inl (Failure 500 ''Server error deleting comment''), s)
            | Some s1 \<Rightarrow>
               (let s2 = s1\<lparr>posts :=
                             update_first (\<lambda>p. p_id p = c_post cmt)
                               (\<lambda>p. p\<lparr>p_comments := filter (\<lambda>c. c \<noteq> c_id cmt) (p_comments p)\<rparr>)
                               (posts s1)\<rparr>;
                    s3 = (case c_parentComment cmt of
                            None \<Rightarrow> s2
                          | Some pcid \<Rightarrow>
                              s2\<lparr>comments :=
                                   update_first (\<lambda>c. c_id c = pcid)
                                     (\<lambda>c. c\<lparr>c_replies := filter (\<lambda>r. r \<noteq> c_id cmt) (c_replies c)\<rparr>)
                                     (comments s2)\<rparr>)
                in (Inr (), s3))))"

record comments_data =
  cd_comments :: "comment list"
  cd_page :: int
  cd_limit :: int
  cd_total :: nat

text \<open>
  \<open>getComments\<close>. After the lookup of the post the source holds only the remark that
  the visibility checks would go here; the viewer \<open>req.user\<close> is read nowhere. The
  derived number of pages of the answer is left out.
\<close>

definition getComments ::
  "req_user option \<Rightarrow> oid \<Rightarrow> int option \<Rightarrow> int option \<Rightarrow> db \<Rightarrow> failure + comments_data" where
  "getComments ru postId page limit s =
     (let pg = query_page page;
          lm = query_limit limit
      in case Post_findById postId s of
           None \<Rightarrow> Inl (Failure 404 ''Post not found'')
         | Some post \<Rightarrow>
             if \<not> p_isActive post then Inl (Failure 404 ''Post not found'')
             else
              (let matching = filter (\<lambda>c. c_post c = postId \<and> c_parentComment c = None \<and>
                                          c_isActive c) (comments s)
               in case skip_limit ((pg - 1) * lm) lm
                         (sort_key (\<lambda>c. - c_createdAt c) matching) of
                    None \<Rightarrow> Inl (Failure 500 ''Server error getting comments'')
                  | Some cs \<Rightarrow>
                      Inr \<lparr>cd_comments = cs, cd_page = pg, cd_limit = lm,
                           cd_total = length matching\<rparr>))"

section \<open>Example stores\<close>

definition alice :: req_user where
  "alice = \<lparr>r_id = 1, r_username = ''alice'', r_role = ''user''\<rparr>"

definition bob :: req_user where
  "bob = \<lparr>r_id = 2, r_username = ''bob'', r_role = ''user''\<rparr>"

definition carol :: req_user where
  "carol = \<lparr>r_id = 3, r_username = ''carol'', r_role = ''user''\<rparr>"

definition account :: "string \<Rightarrow> bool \<Rightarrow> user" where
  "account name private =
     \<lparr>u_username = name, u_isActive = True, u_isPrivate = private,
      u_followersCount = 0, u_followingCount = 0\<rparr>"

text \<open>
  Three active accounts, of which bob's is private; no edges, posts, comments or
  notifications yet, and all counters at 0.
\<close>

definition store0 :: db where
  "store0 =
     \<lparr>users = [1 \<mapsto> account ''alice'' False, 2 \<mapsto> account ''bob'' True,
               3 \<mapsto> account ''carol'' False],
      follows = [], posts = [], comments = [], notifications = [], nextId = 10\<rparr>"

text \<open>alice asks to follow bob; bob then accepts, or else rejects.\<close>

definition store_requested :: db where
  "store_requested = snd (followUser alice 2 store0)"

definition store_accepted :: db where
  "store_accepted = snd (acceptFollowRequest bob 1 store_requested)"

definition store_rejected :: db where
  "store_rejected = snd (rejectFollowRequest bob 1 store_requested)"

text \<open>A public post of bob's, as \<open>createPost\<close> leaves it in the empty store.\<close>

definition hello_post :: post where
  "hello_post =
     \<lparr>p_id = 10, p_author = 2, p_content = Some ''hello'', p_likes = [], p_likesCount = 0,
      p_comments = [], p_commentsCount = 0, p_shares = [], p_sharesCount = 0,
      p_mentions = [], p_visibility = Public, p_isActive = True, p_sharedPost = None,
      p_shareText = None, p_createdAt = 1000\<rparr>"

definition store_post :: db where
  "store_post = store0\<lparr>posts := [hello_post], nextId := 11\<rparr>"

text \<open>The same store after carol has liked the post.\<close>

definition store_liked :: db where
  "store_liked = snd (likePost carol 10 store_post)"

text \<open>
  A followers-only post of bob's with one comment of his own; nobody follows bob.
\<close>

definition followers_post :: post where
  "followers_post =
     \<lparr>p_id = 10, p_author = 2, p_content = Some ''for my followers'', p_likes = [],
      p_likesCount = 0, p_comments = [11], p_commentsCount = 0, p_shares = [],
      p_sharesCount = 0, p_mentions = [], p_visibility = Followers, p_isActive = True,
      p_sharedPost = None, p_shareText = None, p_createdAt = 1000\<rparr>"

definition first_comment :: comment where
  "first_comment =
     \<lparr>c_id = 11, c_author = 2, c_post = 10, c_content = ''first'', c_parentComment = None,
      c_replies = [], c_likes = [], c_likesCount = 0, c_isActive = True, c_createdAt = 2000\<rparr>"

definition store_commented :: db where
  "store_commented =
     store0\<lparr>posts := [followers_post], comments := [first_comment], nextId := 12\<rparr>"

text \<open>
  Two public posts without likes, comments or shares, the older one first in the store.
\<close>

definition older_post :: post where
  "older_post =
     \<lparr>p_id = 10, p_author = 1, p_content = Some ''older'', p_likes = [], p_likesCount = 0,
      p_comments = [], p_commentsCount = 0, p_shares = [], p_sharesCount = 0,
      p_mentions = [], p_visibility = Public, p_isActive = True, p_sharedPost = None,
      p_shareText = None, p_createdAt = 1000\<rparr>"

definition newer_post :: post where
  "newer_post =
     \<lparr>p_id = 11, p_author = 3, p_content = Some ''newer'', p_likes = [], p_likesCount = 0,
      p_comments = [], p_commentsCount = 0, p_shares = [], p_sharesCount = 0,
      p_mentions = [], p_visibility = Public, p_isActive = True, p_sharedPost = None,
      p_shareText = None, p_createdAt = 2000\<rparr>"

definition store_two_posts :: db where
  "store_two_posts = store0\<lparr>posts := [older_post, newer_post], nextId := 12\<rparr>"

text \<open>The same store after bob has liked the newer post.\<close>

definition liked_newer_post :: post where
  "liked_newer_post = newer_post\<lparr>p_likes := [2], p_likesCount := 1\<rparr>"

definition store_newer_liked :: db where
  "store_newer_liked = snd (likePost bob 11 store_two_posts)"

section \<open>The order that the popular feed is specified to have\<close>

text \<open>
  The specification's order of the popular feed, in its words: by
  \<open>likesCount + commentsCount + sharesCount\<close> descending, ties broken by creation
  time descending. \<open>popular_order_spec a b\<close> says that \<open>a\<close> may stand before \<open>b\<close>.
\<close>

definition popular_order_spec :: "post \<Rightarrow> post \<Rightarrow> bool" where
  "popular_order_spec a b =
     (p_likesCount a + p_commentsCount a + p_sharesCount a >
        p_likesCount b + p_commentsCount b + p_sharesCount b \<or>
      (p_likesCount a + p_commentsCount a + p_sharesCount a =
         p_likesCount b + p_commentsCount b + p_sharesCount b \<and>
       p_createdAt a \<ge> p_createdAt b))"

lemmas notification_defs = createNotification_def insertMany_def notification_validate_def
  notification_data_def notification_pre_save_def

lemmas post_model_defs = Post_create_def Post_save_def Post_validate_def post_pre_save_def
  Post_findById_def isLikedBy_def trim_def is_space_def

lemmas example_defs = alice_def bob_def carol_def account_def store0_def

section \<open>Follow status\<close>

text \<open>
  C9. For every viewer, target and store, \<open>getFollowStatus\<close> never answers with both
  \<open>isFollowing\<close> and \<open>hasPendingRequest\<close> true: both flags are read from the status of
  the one edge that the lookup returned.
\<close>

theorem followStatus_flags_exclusive:
  "\<not> (fs_isFollowing (getFollowStatus u userId s) \<and>
      fs_hasPendingRequest (getFollowStatus u userId s))"
  by (simp add: getFollowStatus_def Let_def split: option.splits)

section \<open>Accepted edges\<close>

lemma truthy_find: "truthy (find P xs) = (\<exists>x\<in>set xs. P x)"
  by (induction xs) (auto simp: truthy_def)

lemma followUser_alice_bob:
  "followUser alice 2 store0 =
     (Inr Pending,
      \<lparr>users = [1 \<mapsto> (account ''alice'' False)\<lparr>u_followingCount := 1\<rparr>,
                2 \<mapsto> (account ''bob'' True)\<lparr>u_followersCount := 1\<rparr>,
                3 \<mapsto> account ''carol'' False],
       follows = [\<lparr>f_follower = 1, f_following = 2, f_status = Pending\<rparr>],
       posts = [], comments = [],
       notifications =
         [\<lparr>n_recipient = 2, n_sender = 1, n_type = FollowRequest, n_entityType = EUser,
           n_entityId = 1, n_message = ''alice sent you a follow request'',
           n_isRead = False, n_groupKey = None, n_isActive = True\<rparr>],
       nextId = 10\<rparr>)"
  by (simp add: followUser_def Follow_create_def inc_followersCount_def inc_followingCount_def
        notification_defs example_defs Let_def fun_upd_twist)

lemma follows_store_accepted:
  "follows store_accepted = [\<lparr>f_follower = 1, f_following = 2, f_status = Accepted\<rparr>]"
  unfolding store_accepted_def store_requested_def followUser_alice_bob
  by (simp add: acceptFollowRequest_def notification_defs bob_def)

text \<open>
  C6. \<open>isFollowing followerId followingId\<close> answers with a document (a truthy value)
  if and only if the store holds an edge from \<open>followerId\<close> to \<open>followingId\<close> with
  status accepted, and with null when the follower id is absent, as it is for an
  anonymous viewer.
\<close>

theorem isFollowing_iff_accepted_edge:
  "(truthy (isFollowing followerId followingId s) \<longleftrightarrow>
      (\<exists>f \<in> set (follows s). Some (f_follower f) = followerId \<and>
                               f_following f = followingId \<and> f_status f = Accepted)) \<and>
   isFollowing None followingId s = None"
  by (auto simp: isFollowing_def truthy_find find_None_iff)

theorem isFollowing_iff_accepted_edge_witness:
  "truthy (isFollowing (Some 1) 2 store_accepted) \<and>
   (\<exists>f \<in> set (follows store_accepted). Some (f_follower f) = Some 1 \<and>
                                        f_following f = 2 \<and> f_status f = Accepted) \<and>
   isFollowing None 2 store_accepted = None"
proof -
  have "truthy (isFollowing (Some 1) 2 store_accepted)"
    by (simp add: isFollowing_def follows_store_accepted truthy_def)
  with isFollowing_iff_accepted_edge[of "Some 1" 2 store_accepted] show ?thesis
    by blast
qed

section \<open>Follower counters\<close>

text \<open>
  C1. The claim is that after every sequence of follow requests, accepts, rejects and
  unfollows the counter \<open>followersCount\<close> of an account is the number of accepted edges
  that point to it, and \<open>followingCount\<close> the number of accepted edges that leave it.
  The controller moves both counters when an edge is created, whatever its status, and
  never when a request is accepted or rejected. After the single request of alice to
  the private account of bob the request is pending, bob's \<open>followersCount\<close> and alice's
  \<open>followingCount\<close> are 1, and \<open>getFollowStats\<close> counts no accepted edge for either; after
  bob has rejected the request no edge is left and his counter still is 1.
\<close>

theorem followersCount_counts_pending_edge:
  "fst (followUser alice 2 store0) = Inr Pending \<and>
   followersCount 2 store_requested = 1 \<and> fst (getFollowStats 2 store_requested) = 0 \<and>
   followingCount 1 store_requested = 1 \<and> snd (getFollowStats 1 store_requested) = 0 \<and>
   fst (rejectFollowRequest bob 1 store_requested) = Inr () \<and>
   follows store_rejected = [] \<and> followersCount 2 store_rejected = 1"
  by (simp add: store_requested_def store_rejected_def followUser_alice_bob
        rejectFollowRequest_def followersCount_def followingCount_def getFollowStats_def
        bob_def account_def)

text \<open>
  C2. The claim is that a follow request to a private active account creates a
  pending edge, answers pending, leaves \<open>isFollowing\<close> false and \<open>followersCount\<close> of the
  target unchanged, and that the accept makes \<open>isFollowing\<close> true and adds exactly 1 to
  that counter. On the request of alice to bob the answer is pending and
  \<open>isFollowing\<close> is null, but bob's counter goes from 0 to 1 at once; the accept
  succeeds and makes \<open>isFollowing\<close> return the accepted edge, and the counter stays 1.
\<close>

theorem private_follow_counter_moves_at_request:
  "followersCount 2 store0 = 0 \<and>
   fst (followUser alice 2 store0) = Inr Pending \<and>
   isFollowing (Some 1) 2 store_requested = None \<and>
   followersCount 2 store_requested = 1 \<and>
   fst (acceptFollowRequest bob 1 store_requested) = Inr () \<and>
   isFollowing (Some 1) 2 store_accepted =
     Some \<lparr>f_follower = 1, f_following = 2, f_status = Accepted\<rparr> \<and>
   followersCount 2 store_accepted = 1"
proof -
  have before: "followersCount 2 store0 = 0"
    by (simp add: followersCount_def store0_def account_def)
  have after:
    "fst (followUser alice 2 store0) = Inr Pending \<and>
     isFollowing (Some 1) 2 store_requested = None \<and>
     followersCount 2 store_requested = 1 \<and>
     fst (acceptFollowRequest bob 1 store_requested) = Inr () \<and>
     isFollowing (Some 1) 2 store_accepted =
       Some \<lparr>f_follower = 1, f_following = 2, f_status = Accepted\<rparr> \<and>
     followersCount 2 store_accepted = 1"
    unfolding store_accepted_def store_requested_def followUser_alice_bob
    by (simp add: acceptFollowRequest_def isFollowing_def followersCount_def
          notification_defs bob_def account_def)
  from before after show ?thesis by simp
qed

section \<open>Notifications to oneself\<close>

text \<open>
  C3. The claim is that no path creates a notification whose recipient is its sender.
  The like, share, comment and reply paths compare the author with the actor before
  they notify; the mention path of \<open>createPost\<close> maps every mentioned id to a
  notification without that comparison. alice, who mentions herself in a post, gets
  a mention notification from herself.
\<close>

theorem self_mention_creates_self_notification:
  "notifications (snd (createPost alice (Some ''hello'') None (Some [1]) 1000 store0)) =
     [\<lparr>n_recipient = 1, n_sender = 1, n_type = Mention, n_entityType = EPost,
       n_entityId = 10, n_message = ''alice mentioned you in a post'', n_isRead = False,
       n_groupKey = None, n_isActive = True\<rparr>]"
  by (simp add: createPost_def post_model_defs notification_defs example_defs Let_def)

section \<open>Visibility of comments\<close>

lemma store_commented_reachable:
  "snd (createComment (\<lambda>c. True) bob 10 ''first'' None 2000
          (snd (createPost bob (Some ''for my followers'') (Some Followers) None 1000 store0))) =
   store_commented"
  by (simp add: createPost_def createComment_def post_model_defs example_defs Comment_create_def
        push_reply_def notify_post_author_def notify_parent_author_def Let_def
        store_commented_def followers_post_def first_comment_def)

text \<open>
  C4. The claim is that a viewer can read the comments of a post exactly when the
  viewer can read the post. \<open>getComments\<close> looks the post up and applies no visibility
  check. carol, who does not follow bob, is refused bob's followers-only post by
  \<open>getPost\<close> and is served its comments by \<open>getComments\<close>.
\<close>

theorem getComments_skips_post_visibility:
  "getPost (Some carol) 10 store_commented =
     Inl (Failure 403 ''This post is only visible to followers'') \<and>
   getComments (Some carol) 10 None None store_commented =
     Inr \<lparr>cd_comments = [first_comment], cd_page = 1, cd_limit = 20, cd_total = 1\<rparr>"
  by (simp add: getPost_def getComments_def Post_findById_def store_commented_def
        followers_post_def isFollowing_def truthy_def example_defs query_page_def
        query_limit_def skip_limit_def first_comment_def)

section \<open>Popular feed\<close>

lemma store_two_posts_reachable:
  "snd (createPost carol (Some ''newer'') None None 2000
          (snd (createPost alice (Some ''older'') None None 1000 store0))) = store_two_posts"
  by (simp add: createPost_def post_model_defs example_defs Let_def
        store_two_posts_def older_post_def newer_post_def)

lemma posts_store_newer_liked: "posts store_newer_liked = [older_post, liked_newer_post]"
  by (simp add: store_newer_liked_def likePost_def post_model_defs notification_defs
        store_two_posts_def older_post_def newer_post_def liked_newer_post_def
        example_defs Let_def)

lemma sort_desc_absent_path: "sort_desc (\<lambda>p. None) xs = xs"
  by (simp add: sort_desc_def sort_key_const)

lemma engagementCount_not_stored: "stored_number ''engagementCount'' = (\<lambda>p. None)"
  by (rule ext) (simp add: stored_number_def)

text \<open>
  C5. The claim is that the popular feed returns the active public posts of the last
  seven days ordered by \<open>likesCount + commentsCount + sharesCount\<close> descending, ties
  broken by creation time descending, paginated. The query asks the store to sort on
  \<open>engagementCount\<close>, which is a virtual and no path of a stored post, and names no
  creation time key: the sort orders nothing, and every page is cut from the matching
  posts in the order of the store. With an older post without engagement stored
  before a newer post with one like, the feed returns the older post first, against
  both the engagement order and the tie-break of the claim.
\<close>

theorem popular_feed_in_store_order:
  "Post_getPopularPosts page limit now s =
     skip_limit ((page - 1) * limit) limit
       (filter (\<lambda>p. p_visibility p = Public \<and> p_isActive p \<and>
                    now - 604800000 \<le> p_createdAt p) (posts s)) \<and>
   getPopularPosts None (Some 1) (Some 20) 3000 store_newer_liked =
     Inr \<lparr>pd_posts = [older_post, liked_newer_post], pd_page = 1, pd_limit = 20\<rparr> \<and>
   engagementCount older_post = 0 \<and> engagementCount liked_newer_post = 1 \<and>
   p_createdAt older_post = 1000 \<and> p_createdAt liked_newer_post = 2000 \<and>
   \<not> sorted_wrt popular_order_spec [older_post, liked_newer_post]"
proof -
  have general: "Post_getPopularPosts page limit now s =
     skip_limit ((page - 1) * limit) limit
       (filter (\<lambda>p. p_visibility p = Public \<and> p_isActive p \<and>
                    now - 604800000 \<le> p_createdAt p) (posts s))" for page limit now s
    by (simp add: Post_getPopularPosts_def engagementCount_not_stored
          sort_desc_absent_path Let_def)
  have example: "getPopularPosts None (Some 1) (Some 20) 3000 store_newer_liked =
     Inr \<lparr>pd_posts = [older_post, liked_newer_post], pd_page = 1, pd_limit = 20\<rparr>"
    by (simp add: getPopularPosts_def general posts_store_newer_liked skip_limit_def
          query_page_def query_limit_def)
      (simp add: older_post_def newer_post_def liked_newer_post_def)
  have measured: "engagementCount older_post = 0 \<and> engagementCount liked_newer_post = 1 \<and>
      p_createdAt older_post = 1000 \<and> p_createdAt liked_newer_post = 2000 \<and>
      \<not> sorted_wrt popular_order_spec [older_post, liked_newer_post]"
    by (simp add: engagementCount_def popular_order_spec_def older_post_def newer_post_def
          liked_newer_post_def)
  from general example measured show ?thesis by blast
qed

section \<open>Likes\<close>

lemma find_replace_first:
  "find P xs = Some x \<Longrightarrow> P y \<Longrightarrow> find P (replace_first P y xs) = Some y"
  by (induction xs) (auto split: if_splits)

lemma Post_findById_id: "Post_findById pid s = Some p \<Longrightarrow> p_id p = pid"
  by (auto simp: Post_findById_def dest: find_Some_iff[THEN iffD1])

lemma store_post_reachable:
  "createPost bob (Some ''hello'') None None 1000 store0 = (Inr hello_post, store_post)"
  by (simp add: createPost_def post_model_defs example_defs Let_def hello_post_def
        store_post_def)

text \<open>The first call on a post that the actor has not liked.\<close>

lemma likePost_like:
  assumes found: "Post_findById pid s = Some P" and active: "p_isActive P"
    and valid: "Post_validate P" and fresh: "r_id u \<notin> set (p_likes P)"
    and name: "length (r_username u) \<le> 30"
  shows "likePost u pid s =
     (Inr \<lparr>ld_likesCount = int (length (p_likes P)) + 1, ld_isLiked = True\<rparr>,
      s\<lparr>posts := replace_first (\<lambda>q. p_id q = p_id P)
                   (P\<lparr>p_likes := p_likes P @ [r_id u],
                      p_likesCount := int (length (p_likes P)) + 1\<rparr>) (posts s),
        notifications := notifications s @
           (if p_author P = r_id u then []
            else [\<lparr>n_recipient = p_author P, n_sender = r_id u, n_type = Like,
                   n_entityType = EPost, n_entityId = p_id P,
                   n_message = r_username u @ '' liked your post'', n_isRead = False,
                   n_groupKey = Some (''post_like_'', p_id P), n_isActive = True\<rparr>])\<rparr>)"
proof -
  have nl: "\<not> isLikedBy P (r_id u)"
    using fresh by (auto simp: isLikedBy_def list_ex_iff)
  have v: "Post_validate (P\<lparr>p_likes := p_likes P @ [r_id u]\<rparr>)"
    using valid by (simp add: Post_validate_def)
  have ps: "post_pre_save P (P\<lparr>p_likes := p_likes P @ [r_id u]\<rparr>) =
      P\<lparr>p_likes := p_likes P @ [r_id u], p_likesCount := int (length (p_likes P)) + 1\<rparr>"
    by (simp add: post_pre_save_def Let_def)
  have sv: "Post_save P (P\<lparr>p_likes := p_likes P @ [r_id u]\<rparr>) s =
      Some (P\<lparr>p_likes := p_likes P @ [r_id u], p_likesCount := int (length (p_likes P)) + 1\<rparr>,
            s\<lparr>posts := replace_first (\<lambda>q. p_id q = p_id P)
                   (P\<lparr>p_likes := p_likes P @ [r_id u],
                      p_likesCount := int (length (p_likes P)) + 1\<rparr>) (posts s)\<rparr>)"
    using v by (simp add: Post_save_def ps Let_def)
  show ?thesis
    using found active nl name
    by (simp add: likePost_def sv Let_def notification_defs)
qed

text \<open>The call on a post that the actor has liked.\<close>

lemma likePost_unlike:
  assumes found: "Post_findById pid s = Some P" and active: "p_isActive P"
    and valid: "Post_validate P" and liked: "r_id u \<in> set (p_likes P)"
  shows "likePost u pid s =
     (Inr \<lparr>ld_likesCount = int (length (filter (\<lambda>l. l \<noteq> r_id u) (p_likes P))),
           ld_isLiked = False\<rparr>,
      s\<lparr>posts := replace_first (\<lambda>q. p_id q = p_id P)
                   (P\<lparr>p_likes := filter (\<lambda>l. l \<noteq> r_id u) (p_likes P),
                      p_likesCount := int (length (filter (\<lambda>l. l \<noteq> r_id u) (p_likes P)))\<rparr>)
                   (posts s)\<rparr>)"
proof -
  have il: "isLikedBy P (r_id u)"
    using liked by (auto simp: isLikedBy_def list_ex_iff)
  have ch: "filter (\<lambda>l. l \<noteq> r_id u) (p_likes P) \<noteq> p_likes P"
    using liked by (metis (mono_tags, lifting) filter_id_conv)
  have v: "Post_validate (P\<lparr>p_likes := filter (\<lambda>l. l \<noteq> r_id u) (p_likes P)\<rparr>)"
    using valid by (simp add: Post_validate_def)
  show ?thesis
    using found active il v ch
    by (simp add: likePost_def Post_save_def post_pre_save_def Let_def)
qed

text \<open>
  C7, as stated, fails. bob's post carries a like of carol and none of alice; the
  first like of alice answers with the count 2, not 1.
\<close>

theorem likePost_count_with_other_likes:
  "map_option p_likes (Post_findById 10 store_liked) = Some [3] \<and>
   fst (likePost alice 10 store_liked) = Inr \<lparr>ld_likesCount = 2, ld_isLiked = True\<rparr>"
  by (simp add: store_liked_def likePost_def post_model_defs notification_defs
        store_post_def hello_post_def example_defs Let_def)

text \<open>
  C7, amended. Let \<open>P\<close> be an active stored post that passes the schema validation and
  carries \<open>n\<close> likes, none of them by the actor, whose user name has at most 30
  characters. Then the first \<open>likePost\<close> answers liked with the count \<open>n + 1\<close>, and the
  same call repeated at once answers not liked with the count \<open>n\<close> (1 and 0 when the
  post has no like at all). The first call appends one like notification to the
  author, and none when the actor is the author; the second call creates none.
\<close>

theorem likePost_toggle:
  assumes found: "Post_findById pid s = Some P" and active: "p_isActive P"
    and valid: "Post_validate P" and fresh: "r_id u \<notin> set (p_likes P)"
    and name: "length (r_username u) \<le> 30"
  shows "fst (likePost u pid s) =
           Inr \<lparr>ld_likesCount = int (length (p_likes P)) + 1, ld_isLiked = True\<rparr> \<and>
         fst (likePost u pid (snd (likePost u pid s))) =
           Inr \<lparr>ld_likesCount = int (length (p_likes P)), ld_isLiked = False\<rparr> \<and>
         notifications (snd (likePost u pid s)) =
           notifications s @
           (if p_author P = r_id u then []
            else [\<lparr>n_recipient = p_author P, n_sender = r_id u, n_type = Like,
                   n_entityType = EPost, n_entityId = pid,
                   n_message = r_username u @ '' liked your post'', n_isRead = False,
                   n_groupKey = Some (''post_like_'', pid), n_isActive = True\<rparr>]) \<and>
         notifications (snd (likePost u pid (snd (likePost u pid s)))) =
           notifications (snd (likePost u pid s))"
proof -
  let ?P' = "P\<lparr>p_likes := p_likes P @ [r_id u], p_likesCount := int (length (p_likes P)) + 1\<rparr>"
  let ?s' = "snd (likePost u pid s)"
  have pid: "p_id P = pid" using found by (rule Post_findById_id)
  note first = likePost_like[OF found active valid fresh name]
  have found': "Post_findById pid ?s' = Some ?P'"
    using found pid by (simp add: first Post_findById_def find_replace_first)
  have flt: "filter (\<lambda>l. l \<noteq> r_id u) (p_likes ?P') = p_likes P"
    using fresh by (auto simp: filter_id_conv)
  have second: "likePost u pid ?s' =
     (Inr \<lparr>ld_likesCount = int (length (p_likes P)), ld_isLiked = False\<rparr>,
      ?s'\<lparr>posts := replace_first (\<lambda>q. p_id q = p_id ?P')
                   (?P'\<lparr>p_likes := p_likes P, p_likesCount := int (length (p_likes P))\<rparr>)
                   (posts ?s')\<rparr>)"
    using likePost_unlike[OF found', of u] active valid flt
    by (simp add: Post_validate_def)
  show ?thesis
    by (simp add: second) (simp add: first pid)
qed

theorem likePost_toggle_witness:
  "(Post_findById 10 store_post = Some hello_post \<and> p_isActive hello_post \<and>
    Post_validate hello_post \<and> r_id alice \<notin> set (p_likes hello_post) \<and>
    length (r_username alice) \<le> 30) \<and>
   fst (likePost alice 10 store_post) =
     Inr \<lparr>ld_likesCount = int (length (p_likes hello_post)) + 1, ld_isLiked = True\<rparr> \<and>
   fst (likePost alice 10 (snd (likePost alice 10 store_post))) =
     Inr \<lparr>ld_likesCount = int (length (p_likes hello_post)), ld_isLiked = False\<rparr> \<and>
   notifications (snd (likePost alice 10 store_post)) =
     notifications store_post @
     (if p_author hello_post = r_id alice then []
      else [\<lparr>n_recipient = p_author hello_post, n_sender = r_id alice, n_type = Like,
             n_entityType = EPost, n_entityId = 10,
             n_message = r_username alice @ '' liked your post'', n_isRead = False,
             n_groupKey = Some (''post_like_'', 10), n_isActive = True\<rparr>]) \<and>
   notifications (snd (likePost alice 10 (snd (likePost alice 10 store_post)))) =
     notifications (snd (likePost alice 10 store_post))"
proof -
  have h1: "Post_findById 10 store_post = Some hello_post"
    by (simp add: Post_findById_def store_post_def hello_post_def)
  have h2: "p_isActive hello_post" by (simp add: hello_post_def)
  have h3: "Post_validate hello_post" by (simp add: Post_validate_def hello_post_def)
  have h4: "r_id alice \<notin> set (p_likes hello_post)" by (simp add: hello_post_def)
  have h5: "length (r_username alice) \<le> 30" by (simp add: alice_def)
  from h1 h2 h3 h4 h5 likePost_toggle[OF h1 h2 h3 h4 h5] show ?thesis
    by blast
qed

section \<open>Shares\<close>

lemma Post_create_without_content:
  "Post_create author None vis ments shared shareText now s = None"
  by (simp add: Post_create_def Post_validate_def Let_def)

text \<open>
  C8. The claim is that \<open>sharePost\<close> on an active post creates a new public post that
  refers to the original and raises the original's \<open>sharesCount\<close>, twice when called
  twice. The controller creates the share post without a \<open>content\<close>, which the post
  schema requires, so the creation is rejected: on every input \<open>sharePost\<close> answers 404
  or 500 and leaves the store as it was. alice's share of bob's active post answers
  500; no post is created and no share is counted.
\<close>

theorem sharePost_always_fails:
  "(sharePost u pid shareText now s = (Inl (Failure 404 ''Post not found''), s) \<or>
    sharePost u pid shareText now s = (Inl (Failure 500 ''Server error sharing post''), s)) \<and>
   sharePost alice 10 (Some ''look'') 2000 store_post =
     (Inl (Failure 500 ''Server error sharing post''), store_post)"
proof -
  have general:
    "sharePost u pid shareText now s = (Inl (Failure 404 ''Post not found''), s) \<or>
     sharePost u pid shareText now s = (Inl (Failure 500 ''Server error sharing post''), s)"
    by (simp add: sharePost_def Post_create_without_content split: option.splits)
  have example:
    "sharePost alice 10 (Some ''look'') 2000 store_post =
       (Inl (Failure 500 ''Server error sharing post''), store_post)"
    by (simp add: sharePost_def Post_create_without_content Post_findById_def
          store_post_def hello_post_def)
  from general example show ?thesis by blast
qed

section \<open>Comment counter\<close>

lemma map_replace_first:
  "find P xs = Some x \<Longrightarrow> h y = h x \<Longrightarrow> map h (replace_first P y xs) = map h xs"
  by (induction xs) (auto split: if_splits)

lemma map_update_first:
  "(\<And>x. h (g x) = h x) \<Longrightarrow> map h (update_first P g xs) = map h xs"
  by (induction xs) auto

lemma posts_createNotification: "createNotification n s = Some s' \<Longrightarrow> posts s' = posts s"
  by (auto simp: createNotification_def split: if_splits)

lemma posts_Comment_save: "Comment_save cv c s = Some s' \<Longrightarrow> posts s' = posts s"
  by (auto simp: Comment_save_def split: if_splits)

lemma posts_Comment_create:
  "Comment_create cv a p c pc now s = Some (cmt, s') \<Longrightarrow> posts s' = posts s"
  by (auto simp: Comment_create_def Let_def split: if_splits)

lemma posts_push_reply: "push_reply cv pc cid s = Some s' \<Longrightarrow> posts s' = posts s"
  by (auto simp: push_reply_def posts_Comment_save split: option.splits)

lemma posts_notify_post_author:
  "notify_post_author u p pc cid s = Some s' \<Longrightarrow> posts s' = posts s"
  by (auto simp: notify_post_author_def posts_createNotification split: if_splits)

lemma posts_notify_parent_author:
  "notify_parent_author u p pc cid s = Some s' \<Longrightarrow> posts s' = posts s"
  by (auto simp: notify_parent_author_def posts_createNotification
        split: option.splits if_splits)

lemma pre_save_keeps_commentsCount:
  "p_id (post_pre_save loaded p) = p_id p \<and>
   p_commentsCount (post_pre_save loaded p) = p_commentsCount p"
  by (simp add: post_pre_save_def Let_def)

lemma Post_save_comments_keeps_count:
  assumes "Post_save post (post\<lparr>p_comments := cs\<rparr>) s1 = Some (post2, s2)"
    and "find (\<lambda>q. p_id q = p_id post) (posts s1) = Some post"
  shows "map (\<lambda>p. (p_id p, p_commentsCount p)) (posts s2) =
         map (\<lambda>p. (p_id p, p_commentsCount p)) (posts s1)"
proof -
  let ?h = "\<lambda>p. (p_id p, p_commentsCount p)"
  have "?h (post_pre_save post (post\<lparr>p_comments := cs\<rparr>)) = ?h post"
    by (simp add: pre_save_keeps_commentsCount)
  with assms(2) have
    "map ?h (replace_first (\<lambda>q. p_id q = p_id post)
               (post_pre_save post (post\<lparr>p_comments := cs\<rparr>)) (posts s1)) = map ?h (posts s1)"
    by (rule map_replace_first)
  with assms(1) show ?thesis
    by (auto simp: Post_save_def Let_def split: if_splits)
qed

lemma createComment_keeps_commentsCount:
  "map (\<lambda>p. (p_id p, p_commentsCount p))
     (posts (snd (createComment cv u postId content parent now s))) =
   map (\<lambda>p. (p_id p, p_commentsCount p)) (posts s)"
proof (cases "Post_findById postId s")
  case None
  then show ?thesis by (simp add: createComment_def)
next
  case found: (Some post)
  then have pid: "p_id post = postId" by (rule Post_findById_id)
  show ?thesis
  proof (cases "Comment_create cv (r_id u) postId content parent now s")
    case None
    with found show ?thesis by (simp add: createComment_def)
  next
    case created: (Some a)
    obtain cmt s1 where a: "a = (cmt, s1)" by (cases a)
    with created have p1: "posts s1 = posts s" by (auto dest: posts_Comment_create)
    show ?thesis
    proof (cases "Post_save post (post\<lparr>p_comments := p_comments post @ [c_id cmt]\<rparr>) s1")
      case None
      with found created a p1 show ?thesis by (simp add: createComment_def)
    next
      case saved: (Some b)
      obtain post2 s2 where b: "b = (post2, s2)" by (cases b)
      have "find (\<lambda>q. p_id q = p_id post) (posts s1) = Some post"
        using found pid p1 by (simp add: Post_findById_def)
      with saved b have p2:
        "map (\<lambda>p. (p_id p, p_commentsCount p)) (posts s2) =
         map (\<lambda>p. (p_id p, p_commentsCount p)) (posts s)"
        using Post_save_comments_keeps_count[of post _ s1 post2 s2] p1 by simp
      show ?thesis
        using found created a saved b p2
        by (auto simp: createComment_def split: option.splits
              dest!: posts_push_reply posts_notify_post_author posts_notify_parent_author)
    qed
  qed
qed

lemma deleteComment_keeps_commentsCount:
  "map (\<lambda>p. (p_id p, p_commentsCount p)) (posts (snd (deleteComment cv u cid s))) =
   map (\<lambda>p. (p_id p, p_commentsCount p)) (posts s)"
  by (auto simp: deleteComment_def Let_def map_update_first
        split: option.splits dest!: posts_Comment_save)

text \<open>
  C10. Creating a comment and deleting a comment leave the \<open>commentsCount\<close> of every
  post of the store as it was, whatever the answer of the call: the comment id goes
  into or out of the \<open>comments\<close> array and the pre-save hook recomputes only
  \<open>likesCount\<close> and \<open>sharesCount\<close>. A post is created with \<open>commentsCount\<close> 0; bob's
  post with one comment has the comment's id in its array and still the count 0.
\<close>

theorem comment_ops_keep_commentsCount:
  "map (\<lambda>p. (p_id p, p_commentsCount p))
     (posts (snd (createComment cv u postId content parent now s))) =
     map (\<lambda>p. (p_id p, p_commentsCount p)) (posts s) \<and>
   map (\<lambda>p. (p_id p, p_commentsCount p)) (posts (snd (deleteComment cv u cid s))) =
     map (\<lambda>p. (p_id p, p_commentsCount p)) (posts s) \<and>
   (case Post_create author c vis ments shared shareText now s of
      None \<Rightarrow> True | Some (p, s') \<Rightarrow> p_commentsCount p = 0) \<and>
   map (\<lambda>p. (p_comments p, p_commentsCount p))
     (posts (snd (createComment (\<lambda>c. True) bob 10 ''first'' None 2000
        (snd (createPost bob (Some ''for my followers'') (Some Followers) None 1000 store0))))) =
     [([11], 0)]"
proof -
  have default: "case Post_create author c vis ments shared shareText now s of
      None \<Rightarrow> True | Some (p, s') \<Rightarrow> p_commentsCount p = 0"
    by (simp add: Post_create_def Let_def)
  have example: "map (\<lambda>p. (p_comments p, p_commentsCount p))
     (posts (snd (createComment (\<lambda>c. True) bob 10 ''first'' None 2000
        (snd (createPost bob (Some ''for my followers'') (Some Followers) None 1000 store0))))) =
     [([11], 0)]"
    unfolding store_commented_reachable
    by (simp add: store_commented_def followers_post_def)
  from createComment_keeps_commentsCount deleteComment_keeps_commentsCount default example
  show ?thesis by blast
qed

end
